theory Spec2Isabelle
  imports Main
begin

section \<open>Strings and numbers of the Go standard library\<close>

text \<open>
  A Go \<^verbatim>\<open>string\<close> is a sequence of bytes, modelled as \<^typ>\<open>string\<close>. The functions
  of \<^verbatim>\<open>strings\<close> and \<^verbatim>\<open>strconv\<close> that the backend calls are written out on bytes.
\<close>

definition byte :: "char \<Rightarrow> nat" where
  "byte c = of_char c"

definition asciiSpace :: "char \<Rightarrow> bool" where
  "asciiSpace c = (byte c = 9 \<or> byte c = 10 \<or> byte c = 11 \<or> byte c = 12 \<or> byte c = 13 \<or> byte c = 32)"

text \<open>The white space of \<^verbatim>\<open>unicode.IsSpace\<close> beyond ASCII, in UTF-8: U+0085 and U+00A0.\<close>

definition space2 :: "char \<Rightarrow> char \<Rightarrow> bool" where
  "space2 a b = (byte a = 0xC2 \<and> (byte b = 0x85 \<or> byte b = 0xA0))"

text \<open>U+1680, U+2000 to U+200A, U+2028, U+2029, U+202F, U+205F and U+3000.\<close>

definition space3 :: "char \<Rightarrow> char \<Rightarrow> char \<Rightarrow> bool" where
  "space3 a b c =
     ((byte a = 0xE1 \<and> byte b = 0x9A \<and> byte c = 0x80) \<or>
      (byte a = 0xE2 \<and> byte b = 0x80 \<and>
         ((0x80 \<le> byte c \<and> byte c \<le> 0x8A) \<or> byte c = 0xA8 \<or> byte c = 0xA9 \<or> byte c = 0xAF)) \<or>
      (byte a = 0xE2 \<and> byte b = 0x81 \<and> byte c = 0x9F) \<or>
      (byte a = 0xE3 \<and> byte b = 0x80 \<and> byte c = 0x80))"

fun TrimLeftSpace :: "string \<Rightarrow> string" where
  "TrimLeftSpace (a # b # c # s) =
     (if asciiSpace a then TrimLeftSpace (b # c # s)
      else if space2 a b then TrimLeftSpace (c # s)
      else if space3 a b c then TrimLeftSpace s
      else a # b # c # s)"
| "TrimLeftSpace [a, b] =
     (if asciiSpace a then TrimLeftSpace [b]
      else if space2 a b then []
      else [a, b])"
| "TrimLeftSpace [a] = (if asciiSpace a then [] else [a])"
| "TrimLeftSpace [] = []"

text \<open>The same from the right end, on the reversed string: the last rune is \<open>a b c\<close>.\<close>

fun TrimRightSpaceRev :: "string \<Rightarrow> string" where
  "TrimRightSpaceRev (c # b # a # s) =
     (if asciiSpace c then TrimRightSpaceRev (b # a # s)
      else if space2 b c then TrimRightSpaceRev (a # s)
      else if space3 a b c then TrimRightSpaceRev s
      else c # b # a # s)"
| "TrimRightSpaceRev [c, b] =
     (if asciiSpace c then TrimRightSpaceRev [b]
      else if space2 b c then []
      else [c, b])"
| "TrimRightSpaceRev [c] = (if asciiSpace c then [] else [c])"
| "TrimRightSpaceRev [] = []"

definition TrimSpace :: "string \<Rightarrow> string" where
  "TrimSpace s = rev (TrimRightSpaceRev (rev (TrimLeftSpace s)))"

text \<open>\<^verbatim>\<open>strings.Split(s, sep)\<close> for a separator of one byte, as at every call site.\<close>

fun Split :: "string \<Rightarrow> char \<Rightarrow> string list" where
  "Split [] sep = [[]]"
| "Split (c # cs) sep =
     (if c = sep then [] # Split cs sep
      else (case Split cs sep of
              [] \<Rightarrow> [[c]]
            | x # xs \<Rightarrow> (c # x) # xs))"

definition HasSuffix :: "string \<Rightarrow> string \<Rightarrow> bool" where
  "HasSuffix s suf = (length suf \<le> length s \<and> drop (length s - length suf) s = suf)"

definition TrimSuffix :: "string \<Rightarrow> string \<Rightarrow> string" where
  "TrimSuffix s suf = (if HasSuffix s suf then take (length s - length suf) s else s)"

fun isPrefixOf :: "string \<Rightarrow> string \<Rightarrow> bool" where
  "isPrefixOf [] s = True"
| "isPrefixOf (p # ps) [] = False"
| "isPrefixOf (p # ps) (c # cs) = (p = c \<and> isPrefixOf ps cs)"

text \<open>\<^verbatim>\<open>strings.Contains\<close>.\<close>

fun Contains :: "string \<Rightarrow> string \<Rightarrow> bool" where
  "Contains [] sub = (sub = [])"
| "Contains (c # cs) sub = (isPrefixOf sub (c # cs) \<or> Contains cs sub)"

datatype NumError = ErrSyntax | ErrRange

definition decDigit :: "char \<Rightarrow> nat option" where
  "decDigit c = (if 48 \<le> byte c \<and> byte c \<le> 57 then Some (byte c - 48) else None)"

definition hexDigit :: "char \<Rightarrow> nat option" where
  "hexDigit c =
     (if 48 \<le> byte c \<and> byte c \<le> 57 then Some (byte c - 48)
      else if 97 \<le> byte c \<and> byte c \<le> 102 then Some (byte c - 87)
      else if 65 \<le> byte c \<and> byte c \<le> 70 then Some (byte c - 55)
      else None)"

text \<open>The digits of a decimal number, most significant first; \<open>None\<close> on any other byte.\<close>

fun digitsVal :: "nat \<Rightarrow> string \<Rightarrow> nat option" where
  "digitsVal acc [] = Some acc"
| "digitsVal acc (c # cs) =
     (case decDigit c of
        None \<Rightarrow> None
      | Some d \<Rightarrow> digitsVal (acc * 10 + d) cs)"

text \<open>
  \<^verbatim>\<open>strconv.Atoi\<close> on a 64-bit platform: an optional sign, then one or more decimal
  digits and nothing else; a value outside \<open>int\<close> is a range error.
\<close>

definition Atoi :: "string \<Rightarrow> NumError + int" where
  "Atoi s =
     (case s of
        [] \<Rightarrow> Inl ErrSyntax
      | c # cs \<Rightarrow>
          (let neg = (c = CHR ''-'');
               ds = (if c = CHR ''-'' \<or> c = CHR ''+'' then cs else s)
           in if ds = [] then Inl ErrSyntax
              else (case digitsVal 0 ds of
                      None \<Rightarrow> Inl ErrSyntax
                    | Some n \<Rightarrow>
                        if neg then (if n \<le> 2 ^ 63 then Inr (- int n) else Inl ErrRange)
                        else (if n < 2 ^ 63 then Inr (int n) else Inl ErrRange))))"

text \<open>Two's complement wrap-around of \<open>int\<close> and \<open>int64\<close> arithmetic.\<close>

definition wrap64 :: "int \<Rightarrow> int" where
  "wrap64 x = (x + 2 ^ 63) mod 2 ^ 64 - 2 ^ 63"

text \<open>Go's integer division truncates towards zero.\<close>

definition quot :: "int \<Rightarrow> int \<Rightarrow> int" where
  "quot a b = sgn a * sgn b * (\<bar>a\<bar> div \<bar>b\<bar>)"


subsection \<open>Floating-point numbers: \<^verbatim>\<open>strconv.ParseFloat\<close> and the conversion to \<open>int\<close>\<close>

text \<open>
  A \<^verbatim>\<open>float64\<close> is a finite binary fraction \<open>m * 2 ^ e\<close>, an infinity (negative when
  the flag is set) or not a number.
\<close>

datatype float64 = F64 int int | F64Inf bool | F64NaN

fun bitLen :: "nat \<Rightarrow> nat" where
  "bitLen n = (if n = 0 then 0 else Suc (bitLen (n div 2)))"

declare bitLen.simps [simp del]

text \<open>
  The \<^verbatim>\<open>float64\<close> nearest to \<open>n / d\<close> (ties to the even mantissa), which is what
  \<^verbatim>\<open>ParseFloat\<close> returns; beyond the largest finite value it is a range error.
\<close>

definition f64round :: "bool \<Rightarrow> nat \<Rightarrow> nat \<Rightarrow> NumError + float64" where
  "f64round neg n d =
     (if n = 0 then Inr (F64 0 0)
      else
        (let kb = int (bitLen n) - int (bitLen d);
             k = (if (if 0 \<le> kb then d * 2 ^ nat kb \<le> n else d \<le> n * 2 ^ nat (- kb))
                  then kb else kb - 1);
             e = max (k - 52) (- 1074);
             num = (if e < 0 then n * 2 ^ nat (- e) else n);
             den = (if 0 \<le> e then d * 2 ^ nat e else d);
             q = num div den;
             r = num mod den;
             q' = (if 2 * r < den then q
                   else if den < 2 * r then q + 1
                   else if even q then q else q + 1)
         in if 971 < e \<or> (e = 971 \<and> 2 ^ 53 \<le> q') then Inl ErrRange
            else Inr (F64 (if neg then - int q' else int q') e)))"

text \<open>
  The conversion \<^verbatim>\<open>int(f)\<close> drops the fraction. Where the value does not fit, Go leaves the
  result to the implementation; this is the result on amd64.
\<close>

definition f64_to_int :: "float64 \<Rightarrow> int" where
  "f64_to_int f =
     (case f of
        F64 m e \<Rightarrow>
          (let t = (if 0 \<le> e then m * 2 ^ nat e else quot m (2 ^ nat (- e)))
           in if - (2 ^ 63) \<le> t \<and> t < 2 ^ 63 then t else - (2 ^ 63))
      | F64Inf _ \<Rightarrow> - (2 ^ 63)
      | F64NaN \<Rightarrow> - (2 ^ 63))"

definition lowerAZ :: "char \<Rightarrow> char" where
  "lowerAZ c = (if 65 \<le> byte c \<and> byte c \<le> 90 then char_of (byte c + 32) else c)"

text \<open>The special values, matched without regard to case: \<open>NaN\<close> takes no sign.\<close>

definition special :: "string \<Rightarrow> float64 option" where
  "special s =
     (let l = map lowerAZ s
      in if l = ''inf'' \<or> l = ''infinity'' \<or> l = ''+inf'' \<or> l = ''+infinity'' then Some (F64Inf False)
         else if l = ''-inf'' \<or> l = ''-infinity'' then Some (F64Inf True)
         else if l = ''nan'' then Some F64NaN
         else None)"

text \<open>
  The mantissa loop of \<^verbatim>\<open>readFloat\<close>: digits, at most one point, underscores anywhere.
  It returns whether a digit was seen, the digits as a number, how many of them follow the
  point, and the rest of the input.
\<close>

fun readMant :: "bool \<Rightarrow> string \<Rightarrow> bool \<Rightarrow> bool \<Rightarrow> nat \<Rightarrow> nat \<Rightarrow> bool \<times> nat \<times> nat \<times> string" where
  "readMant hex [] sawdot sawdigits m f = (sawdigits, m, f, [])"
| "readMant hex (c # cs) sawdot sawdigits m f =
     (if c = CHR ''_'' then readMant hex cs sawdot sawdigits m f
      else if c = CHR ''.'' then
        (if sawdot then (sawdigits, m, f, c # cs) else readMant hex cs True sawdigits m f)
      else (case (if hex then hexDigit c else decDigit c) of
              Some d \<Rightarrow>
                readMant hex cs sawdot True (m * (if hex then 16 else 10) + d) (if sawdot then f + 1 else f)
            | None \<Rightarrow> (sawdigits, m, f, c # cs)))"

text \<open>The digits of the exponent; the value stops growing at 10000, as in the source.\<close>

fun readExp :: "nat \<Rightarrow> string \<Rightarrow> nat \<times> string" where
  "readExp e [] = (e, [])"
| "readExp e (c # cs) =
     (if c = CHR ''_'' then readExp e cs
      else (case decDigit c of
              Some d \<Rightarrow> readExp (if e < 10000 then e * 10 + d else e) cs
            | None \<Rightarrow> (e, c # cs)))"

text \<open>
  \<^verbatim>\<open>readFloat\<close> on the whole input: sign, base, mantissa and exponent of a decimal or
  hexadecimal number, \<open>None\<close> when the input is not one or is not used up.
\<close>

definition readFloat :: "string \<Rightarrow> (bool \<times> bool \<times> nat \<times> int) option" where
  "readFloat s =
     (case s of
        [] \<Rightarrow> None
      | c # cs \<Rightarrow>
          (let neg = (c = CHR ''-'');
               s1 = (if c = CHR ''+'' \<or> c = CHR ''-'' then cs else s);
               hex = (case s1 of
                        a # b # _ # _ \<Rightarrow> a = CHR ''0'' \<and> (b = CHR ''x'' \<or> b = CHR ''X'')
                      | _ \<Rightarrow> False);
               s2 = (if hex then drop 2 s1 else s1)
           in (case readMant hex s2 False False 0 0 of
                 (sawdigits, m, f, r) \<Rightarrow>
                   if \<not> sawdigits then None
                   else
                     (let dp = - int (if hex then 4 * f else f)
                      in (case r of
                            [] \<Rightarrow> if hex then None else Some (neg, hex, m, dp)
                          | x # es \<Rightarrow>
                              if (if hex then x = CHR ''p'' \<or> x = CHR ''P'' else x = CHR ''e'' \<or> x = CHR ''E'')
                              then
                                (case es of
                                   [] \<Rightarrow> None
                                 | g # gs \<Rightarrow>
                                     (let esign = (if g = CHR ''-'' then - 1 else 1 :: int);
                                          ds = (if g = CHR ''+'' \<or> g = CHR ''-'' then gs else es)
                                      in (case ds of
                                            [] \<Rightarrow> None
                                          | d0 # _ \<Rightarrow>
                                              if decDigit d0 = None then None
                                              else (case readExp 0 ds of
                                                      (ev, []) \<Rightarrow> Some (neg, hex, m, dp + esign * int ev)
                                                    | (ev, _ # _) \<Rightarrow> None))))
                              else None)))))"

datatype saw = SawStart | SawDigit | SawUnderscore | SawOther

fun underscoreLoop :: "bool \<Rightarrow> saw \<Rightarrow> string \<Rightarrow> bool" where
  "underscoreLoop hex sw [] = (sw \<noteq> SawUnderscore)"
| "underscoreLoop hex sw (c # cs) =
     (if (if hex then hexDigit c else decDigit c) \<noteq> None then underscoreLoop hex SawDigit cs
      else if c = CHR ''_'' then (if sw \<noteq> SawDigit then False else underscoreLoop hex SawUnderscore cs)
      else if sw = SawUnderscore then False
      else underscoreLoop hex SawOther cs)"

definition underscoreOK :: "string \<Rightarrow> bool" where
  "underscoreOK s =
     (let s1 = (case s of
                  [] \<Rightarrow> s
                | c # cs \<Rightarrow> if c = CHR ''-'' \<or> c = CHR ''+'' then cs else s)
      in (case s1 of
            a # b # rest \<Rightarrow>
              if a = CHR ''0'' \<and> lowerAZ b \<in> {CHR ''b'', CHR ''o'', CHR ''x''}
              then underscoreLoop (lowerAZ b = CHR ''x'') SawDigit rest
              else underscoreLoop False SawStart s1
          | _ \<Rightarrow> underscoreLoop False SawStart s1))"

definition ParseFloat :: "string \<Rightarrow> NumError + float64" where
  "ParseFloat s =
     (case special s of
        Some v \<Rightarrow> Inr v
      | None \<Rightarrow>
          (case readFloat s of
             None \<Rightarrow> Inl ErrSyntax
           | Some (neg, hex, m, e) \<Rightarrow>
               if CHR ''_'' \<in> set s \<and> \<not> underscoreOK s then Inl ErrSyntax
               else if 0 \<le> e then f64round neg (m * (if hex then 2 else 10) ^ nat e) 1
               else f64round neg m ((if hex then 2 else 10) ^ nat (- e))))"

section \<open>The data model (\<^verbatim>\<open>models.go\<close>)\<close>

text \<open>
  A \<^verbatim>\<open>time.Time\<close> is an instant, in nanoseconds since the Unix epoch; a \<^verbatim>\<open>time.Duration\<close>
  is an \<open>int64\<close> of nanoseconds.
\<close>

type_synonym time = int

definition Second :: int where
  "Second = 1000000000"

definition Minute :: int where
  "Minute = 60 * Second"

definition Hour :: int where
  "Hour = 60 * Minute"

text \<open>
  The fields of \<^verbatim>\<open>Sample\<close>, and \<^verbatim>\<open>GCTime\<close>, which \<^verbatim>\<open>ParseData\<close> assigns from an \<open>int\<close>.
\<close>

record Sample =
  Timestamp :: int
  ElapsedTime :: int
  PID :: string
  Name :: string
  HeapUsed :: int
  HeapCap :: int
  RSS :: int
  GCTime :: int
  RunID :: string

section \<open>Parsing the sample lines (\<^verbatim>\<open>storage.go\<close>)\<close>

text \<open>\<^verbatim>\<open>ToMillis\<close>: \<^verbatim>\<open>t.UnixNano() / int64(time.Millisecond)\<close>.\<close>

definition ToMillis :: "time \<Rightarrow> int" where
  "ToMillis t = quot (wrap64 t) 1000000"

text \<open>
  The three integer fields of the time column. Any of them failing skips the line.
\<close>

definition parseElapsed :: "string \<Rightarrow> int option" where
  "parseElapsed p0 =
     (case Split p0 CHR '':'' of
        [h, m, s] \<Rightarrow>
          (case (Atoi h, Atoi m, Atoi s) of
             (Inr hours, Inr minutes, Inr seconds) \<Rightarrow>
               Some (wrap64 (hours * 3600 + minutes * 60 + seconds))
           | _ \<Rightarrow> None)
      | _ \<Rightarrow> None)"

text \<open>A memory column: the suffix \<open>MB\<close> removed twice, parsed as a float, cut to an \<open>int\<close>.\<close>

definition parseMB :: "string \<Rightarrow> int option" where
  "parseMB p =
     (case ParseFloat (TrimSuffix (TrimSuffix p ''MB'') ''MB'') of
        Inl err \<Rightarrow> None
      | Inr f \<Rightarrow> Some (f64_to_int f))"

text \<open>
  The seventh column: the suffix \<open>ms\<close> removed twice; \<open>N/A\<close> and the empty string leave
  the zero value, and so does a value that does not parse.
\<close>

definition parseGC :: "string \<Rightarrow> int" where
  "parseGC p =
     (let gcTimeStr = TrimSuffix (TrimSuffix p ''ms'') ''ms''
      in if gcTimeStr \<noteq> ''N/A'' \<and> gcTimeStr \<noteq> []
         then (case ParseFloat gcTimeStr of
                 Inl err \<Rightarrow> 0
               | Inr f \<Rightarrow> f64_to_int f)
         else 0)"

text \<open>
  The body of the loop on one line, after the columns are trimmed: \<open>None\<close> is
  \<^verbatim>\<open>continue\<close>, \<open>Some\<close> the sample that is appended. No branch sets \<^verbatim>\<open>RunID\<close>.
\<close>

definition parseParts :: "time \<Rightarrow> string list \<Rightarrow> string option \<Rightarrow> Sample option" where
  "parseParts startTime parts gc =
     (case parts of
        [p0, p1, p2, p3, p4, p5] \<Rightarrow>
          (case parseElapsed p0 of
             None \<Rightarrow> None
           | Some elapsedTime \<Rightarrow>
               (case parseMB p3 of
                  None \<Rightarrow> None
                | Some heapUsed \<Rightarrow>
                    (case parseMB p4 of
                       None \<Rightarrow> None
                     | Some heapCap \<Rightarrow>
                         (case parseMB p5 of
                            None \<Rightarrow> None
                          | Some rss \<Rightarrow>
                              Some \<lparr>Timestamp = ToMillis (startTime + wrap64 (elapsedTime * Second)),
                                    ElapsedTime = elapsedTime,
                                    PID = p1,
                                    Name = p2,
                                    HeapUsed = heapUsed,
                                    HeapCap = heapCap,
                                    RSS = rss,
                                    GCTime = (case gc of None \<Rightarrow> 0 | Some g \<Rightarrow> parseGC g),
                                    RunID = []\<rparr>))))
      | _ \<Rightarrow> None)"

definition parseLine :: "time \<Rightarrow> string \<Rightarrow> Sample option" where
  "parseLine startTime l =
     (let line = TrimSpace l
      in if line = [] then None
         else
           (let parts = Split line CHR ''|''
            in if length parts \<noteq> 6 \<and> length parts \<noteq> 7 then None
               else if length parts = 7
               then parseParts startTime (map TrimSpace (take 6 parts)) (Some (TrimSpace (parts ! 6)))
               else parseParts startTime (map TrimSpace parts) None))"

text \<open>The loop: samples are appended in the order of the lines.\<close>

fun parseLines :: "time \<Rightarrow> string list \<Rightarrow> Sample list" where
  "parseLines startTime [] = []"
| "parseLines startTime (l # ls) =
     (case parseLine startTime l of
        None \<Rightarrow> parseLines startTime ls
      | Some sample \<Rightarrow> sample # parseLines startTime ls)"

text \<open>\<^verbatim>\<open>ParseData\<close> returns the samples and an error, which is \<^verbatim>\<open>nil\<close> on every path.\<close>

definition ParseData :: "string \<Rightarrow> time \<Rightarrow> Sample list \<times> string option" where
  "ParseData data startTime = (parseLines startTime (Split (TrimSpace data) CHR 0x0A), None)"

text \<open>
  The zero \<^verbatim>\<open>time.Time\<close> is January 1 of year 1, 00:00 UTC.
\<close>

definition zeroTime :: time where
  "zeroTime = - 62135596800 * Second"

text \<open>Per-process metadata, as the handlers and the tests of \<^verbatim>\<open>models\<close> use it.\<close>

record ProcessInfo =
  InfoPID :: string
  InfoName :: string
  VMFlags :: "string list"

text \<open>
  \<^verbatim>\<open>RunDoc\<close>. Its field \<^verbatim>\<open>RunID\<close> is \<open>DocRunID\<close> here; the map \<^verbatim>\<open>ProcessInfo\<close> is a list of
  entries with distinct keys.
\<close>

record RunDoc =
  ID :: string
  DocRunID :: string
  StartTime :: time
  EndTime :: time
  CreatedAt :: time
  UpdatedAt :: time
  UpdatedAtTimestamp :: int
  Samples :: "Sample list"
  ProcessInfoMap :: "(string \<times> ProcessInfo) list"
  Finished :: bool
  FinishedAt :: time

text \<open>The zero value of \<^verbatim>\<open>RunDoc\<close>, which a composite literal fills where it names no field.\<close>

definition zeroRunDoc :: RunDoc where
  "zeroRunDoc =
     \<lparr>ID = [], DocRunID = [], StartTime = zeroTime, EndTime = zeroTime, CreatedAt = zeroTime,
      UpdatedAt = zeroTime, UpdatedAtTimestamp = 0, Samples = [], ProcessInfoMap = [],
      Finished = False, FinishedAt = zeroTime\<rparr>"

section \<open>The document store\<close>

text \<open>
  The collection \<^verbatim>\<open>runs\<close> of Firestore: the documents by id in the order the collection
  lists them, a schedule saying which of the coming requests fail (none once it is used
  up), and the record of the requests made so far.
\<close>

datatype FsOp = OpGet string | OpSet string | OpDocuments | OpDelete string

record Firestore =
  docs :: "(string \<times> RunDoc) list"
  faults :: "bool list"
  ops :: "FsOp list"

text \<open>One request: it is recorded, and fails when the schedule says so.\<close>

definition rpc :: "FsOp \<Rightarrow> Firestore \<Rightarrow> bool \<times> Firestore" where
  "rpc op fs =
     (case faults fs of
        [] \<Rightarrow> (False, fs\<lparr>ops := ops fs @ [op]\<rparr>)
      | f # rest \<Rightarrow> (f, fs\<lparr>faults := rest, ops := ops fs @ [op]\<rparr>))"

text \<open>The texts of the two errors of the client, shortened.\<close>

definition errNotFound :: "string \<Rightarrow> string" where
  "errNotFound runID = ''rpc error: code = NotFound desc = runs/'' @ runID @ '' not found''"

definition errUnavailable :: string where
  "errUnavailable = ''rpc error: code = Unavailable desc = connection closed''"

text \<open>
  \<^verbatim>\<open>doc.Get\<close> returns a snapshot and an error: for a document that does not exist, a
  snapshot whose \<^verbatim>\<open>Exists()\<close> is false (\<open>Some None\<close>) together with the error
  \<^verbatim>\<open>NotFound\<close>; for a failed request no snapshot (\<open>None\<close>).
\<close>

definition docGet :: "string \<Rightarrow> Firestore \<Rightarrow> (RunDoc option option \<times> string option) \<times> Firestore" where
  "docGet runID fs =
     (case rpc (OpGet runID) fs of
        (failed, fs') \<Rightarrow>
          if failed then ((None, Some errUnavailable), fs')
          else (case map_of (docs fs') runID of
                  None \<Rightarrow> ((Some None, Some (errNotFound runID)), fs')
                | Some d \<Rightarrow> ((Some (Some d), None), fs')))"

fun putDoc :: "string \<Rightarrow> RunDoc \<Rightarrow> (string \<times> RunDoc) list \<Rightarrow> (string \<times> RunDoc) list" where
  "putDoc k v [] = [(k, v)]"
| "putDoc k v ((k', v') # r) = (if k = k' then (k, v) # r else (k', v') # putDoc k v r)"

text \<open>\<^verbatim>\<open>doc.Set\<close> writes the whole document.\<close>

definition docSet :: "string \<Rightarrow> RunDoc \<Rightarrow> Firestore \<Rightarrow> string option \<times> Firestore" where
  "docSet runID d fs =
     (case rpc (OpSet runID) fs of
        (failed, fs') \<Rightarrow>
          if failed then (Some errUnavailable, fs')
          else (None, fs'\<lparr>docs := putDoc runID d (docs fs')\<rparr>))"

section \<open>The operations of the store (\<^verbatim>\<open>storage.go\<close>)\<close>

text \<open>
  Every operation takes the reading \<open>now\<close> of the clock and returns its result with the
  store after it.
\<close>

definition GetRun :: "string \<Rightarrow> Firestore \<Rightarrow> (string + RunDoc) \<times> Firestore" where
  "GetRun runID fs =
     (case docGet runID fs of
        ((snapshot, Some err), fs') \<Rightarrow> (Inl err, fs')
      | ((snapshot, None), fs') \<Rightarrow>
          (case snapshot of
             Some (Some runDoc) \<Rightarrow> (Inr runDoc, fs')
           | _ \<Rightarrow> (Inl (''run '' @ runID @ '' not found''), fs')))"

definition StoreSamples :: "string \<Rightarrow> Sample list \<Rightarrow> time \<Rightarrow> Firestore \<Rightarrow> string option \<times> Firestore" where
  "StoreSamples runID samples now fs =
     (case docGet runID fs of
        ((snapshot, err), fs') \<Rightarrow>
          if (case err of None \<Rightarrow> False | Some e \<Rightarrow> \<not> Contains e ''not found'')
          then (err, fs')
          else
            (let runDoc = (case snapshot of
                             Some (Some d) \<Rightarrow> d
                           | _ \<Rightarrow> zeroRunDoc\<lparr>ID := runID, DocRunID := runID,
                                               StartTime := now, CreatedAt := now\<rparr>);
                 runDoc = runDoc\<lparr>Samples := Samples runDoc @ samples\<rparr>;
                 runDoc = runDoc\<lparr>UpdatedAt := now, UpdatedAtTimestamp := ToMillis now\<rparr>
             in docSet runID runDoc fs'))"

definition MarkRunAsFinished :: "string \<Rightarrow> time \<Rightarrow> Firestore \<Rightarrow> string option \<times> Firestore" where
  "MarkRunAsFinished runID now fs =
     (case docGet runID fs of
        ((snapshot, Some err), fs') \<Rightarrow> (Some err, fs')
      | ((snapshot, None), fs') \<Rightarrow>
          (case snapshot of
             Some (Some runDoc) \<Rightarrow>
               if Finished runDoc then (None, fs')
               else docSet runID
                      (runDoc\<lparr>Finished := True, FinishedAt := now, UpdatedAt := now,
                              UpdatedAtTimestamp := ToMillis now\<rparr>) fs'
           | _ \<Rightarrow> (Some (''run '' @ runID @ '' not found''), fs')))"

text \<open>\<^verbatim>\<open>time.Since\<close>: the difference of two instants, kept within a \<^verbatim>\<open>Duration\<close>.\<close>

definition Since :: "time \<Rightarrow> time \<Rightarrow> int" where
  "Since now t = max (- (2 ^ 63)) (min (2 ^ 63 - 1) (now - t))"

text \<open>The loop of \<^verbatim>\<open>FindStaleRuns\<close> over the documents of the collection.\<close>

fun staleLoop :: "int \<Rightarrow> time \<Rightarrow> (string \<times> RunDoc) list \<Rightarrow> string list" where
  "staleLoop timeout now [] = []"
| "staleLoop timeout now ((docID, runDoc) # rest) =
     (if Finished runDoc then staleLoop timeout now rest
      else if timeout < Since now (UpdatedAt runDoc) then docID # staleLoop timeout now rest
      else staleLoop timeout now rest)"

definition FindStaleRuns :: "int \<Rightarrow> time \<Rightarrow> Firestore \<Rightarrow> (string list \<times> string option) \<times> Firestore" where
  "FindStaleRuns timeout now fs =
     (case rpc OpDocuments fs of
        (failed, fs') \<Rightarrow>
          if failed then (([], Some errUnavailable), fs')
          else ((staleLoop timeout now (docs fs'), None), fs'))"

section \<open>Tokens (\<^verbatim>\<open>auth.go\<close>)\<close>

subsection \<open>\<^verbatim>\<open>encoding/hex\<close> and \<^verbatim>\<open>encoding/base64\<close>\<close>

definition hexChar :: "nat \<Rightarrow> char" where
  "hexChar d = char_of (if d < 10 then 48 + d else 87 + d)"

definition hexEncode :: "string \<Rightarrow> string" where
  "hexEncode bs = concat (map (\<lambda>b. [hexChar (byte b div 16), hexChar (byte b mod 16)]) bs)"

text \<open>\<^verbatim>\<open>hex.DecodeString\<close>: pairs of digits of either case; an odd length is an error.\<close>

fun hexDecode :: "string \<Rightarrow> string option" where
  "hexDecode [] = Some []"
| "hexDecode [a] = None"
| "hexDecode (a # b # r) =
     (case (hexDigit a, hexDigit b) of
        (Some x, Some y) \<Rightarrow>
          (case hexDecode r of
             None \<Rightarrow> None
           | Some bs \<Rightarrow> Some (char_of (x * 16 + y) # bs))
      | _ \<Rightarrow> None)"

text \<open>The alphabet of \<^verbatim>\<open>base64.URLEncoding\<close>: \<open>A-Z\<close>, \<open>a-z\<close>, \<open>0-9\<close>, \<open>-\<close> and \<open>_\<close>.\<close>

definition b64Char :: "nat \<Rightarrow> char" where
  "b64Char i =
     char_of (if i < 26 then 65 + i
              else if i < 52 then 71 + i
              else if i < 62 then i - 4
              else if i = 62 then 45
              else 95)"

definition b64Index :: "char \<Rightarrow> nat option" where
  "b64Index c =
     (if 65 \<le> byte c \<and> byte c \<le> 90 then Some (byte c - 65)
      else if 97 \<le> byte c \<and> byte c \<le> 122 then Some (byte c - 71)
      else if 48 \<le> byte c \<and> byte c \<le> 57 then Some (byte c + 4)
      else if byte c = 45 then Some 62
      else if byte c = 95 then Some 63
      else None)"

text \<open>Three bytes make four characters; one or two bytes at the end are padded with \<open>=\<close>.\<close>

fun b64Encode :: "string \<Rightarrow> string" where
  "b64Encode (a # b # c # r) =
     (let val = byte a * 65536 + byte b * 256 + byte c
      in b64Char (val div 262144 mod 64) # b64Char (val div 4096 mod 64) #
         b64Char (val div 64 mod 64) # b64Char (val mod 64) # b64Encode r)"
| "b64Encode [a, b] =
     (let val = byte a * 65536 + byte b * 256
      in [b64Char (val div 262144 mod 64), b64Char (val div 4096 mod 64),
          b64Char (val div 64 mod 64), CHR ''=''])"
| "b64Encode [a] =
     (let val = byte a * 65536
      in [b64Char (val div 262144 mod 64), b64Char (val div 4096 mod 64), CHR ''='', CHR ''=''])"
| "b64Encode [] = []"

text \<open>
  The quanta of the decoder, after line breaks are dropped: four characters of the
  alphabet, or two or three of them and padding at the very end. Bits of the last
  character that belong to no byte are not checked.
\<close>

fun b64Quanta :: "string \<Rightarrow> string option" where
  "b64Quanta [] = Some []"
| "b64Quanta (a # b # c # d # r) =
     (case (b64Index a, b64Index b) of
        (Some x, Some y) \<Rightarrow>
          if c = CHR ''='' then
            (if d = CHR ''='' \<and> r = [] then Some [char_of ((x * 262144 + y * 4096) div 65536)]
             else None)
          else
            (case b64Index c of
               None \<Rightarrow> None
             | Some z \<Rightarrow>
                 if d = CHR ''='' then
                   (if r = [] then
                      (let val = x * 262144 + y * 4096 + z * 64
                       in Some [char_of (val div 65536), char_of (val div 256 mod 256)])
                    else None)
                 else
                   (case b64Index d of
                      None \<Rightarrow> None
                    | Some w \<Rightarrow>
                        (case b64Quanta r of
                           None \<Rightarrow> None
                         | Some bs \<Rightarrow>
                             (let val = x * 262144 + y * 4096 + z * 64 + w
                              in Some (char_of (val div 65536) # char_of (val div 256 mod 256) #
                                       char_of (val mod 256) # bs)))))
      | _ \<Rightarrow> None)"
| "b64Quanta _ = None"

definition b64Decode :: "string \<Rightarrow> string option" where
  "b64Decode s = b64Quanta (filter (\<lambda>c. byte c \<noteq> 10 \<and> byte c \<noteq> 13) s)"

subsection \<open>\<^verbatim>\<open>encoding/json\<close> and the MAC\<close>

text \<open>
  \<^verbatim>\<open>TokenData\<close>; its fields \<^verbatim>\<open>RunID\<close> and \<^verbatim>\<open>CreatedAt\<close> are \<open>TokenRunID\<close> and
  \<open>TokenCreatedAt\<close> here.
\<close>

record TokenData =
  TokenRunID :: string
  ExpiresAt :: time
  TokenCreatedAt :: time

text \<open>
  The library functions that are not written out are parameters: \<^verbatim>\<open>HMAC-SHA256\<close> of a
  key and a message, and \<^verbatim>\<open>json.Marshal\<close> and \<^verbatim>\<open>json.Unmarshal\<close> on \<^verbatim>\<open>TokenData\<close>,
  each returning an error (\<open>Inl\<close>) or its result.
\<close>

record Lib =
  hmacSHA256 :: "string \<Rightarrow> string \<Rightarrow> string"
  jsonMarshal :: "TokenData \<Rightarrow> string + string"
  jsonUnmarshal :: "string \<Rightarrow> string + TokenData"

text \<open>
  \<^verbatim>\<open>json.Marshal\<close> writes a string coerced to valid UTF-8: every byte that does not
  begin a well-formed sequence becomes U+FFFD. \<open>runeLen\<close> is the length of the
  well-formed sequence of two to four bytes at the head of a string, or 0.
\<close>

definition cont :: "char \<Rightarrow> bool" where
  "cont c = (0x80 \<le> byte c \<and> byte c \<le> 0xBF)"

definition utf2 :: "char \<Rightarrow> char \<Rightarrow> bool" where
  "utf2 a b = (0xC2 \<le> byte a \<and> byte a \<le> 0xDF \<and> cont b)"

definition utf3 :: "char \<Rightarrow> char \<Rightarrow> char \<Rightarrow> bool" where
  "utf3 a b c =
     (((byte a = 0xE0 \<and> 0xA0 \<le> byte b \<and> byte b \<le> 0xBF) \<or>
       (0xE1 \<le> byte a \<and> byte a \<le> 0xEC \<and> cont b) \<or>
       (byte a = 0xED \<and> 0x80 \<le> byte b \<and> byte b \<le> 0x9F) \<or>
       (0xEE \<le> byte a \<and> byte a \<le> 0xEF \<and> cont b)) \<and> cont c)"

definition utf4 :: "char \<Rightarrow> char \<Rightarrow> char \<Rightarrow> char \<Rightarrow> bool" where
  "utf4 a b c d =
     (((byte a = 0xF0 \<and> 0x90 \<le> byte b \<and> byte b \<le> 0xBF) \<or>
       (0xF1 \<le> byte a \<and> byte a \<le> 0xF3 \<and> cont b) \<or>
       (byte a = 0xF4 \<and> 0x80 \<le> byte b \<and> byte b \<le> 0x8F)) \<and> cont c \<and> cont d)"

fun runeLen :: "string \<Rightarrow> nat" where
  "runeLen (a # b # c # d # s) =
     (if utf2 a b then 2 else if utf3 a b c then 3 else if utf4 a b c d then 4 else 0)"
| "runeLen [a, b, c] = (if utf2 a b then 2 else if utf3 a b c then 3 else 0)"
| "runeLen [a, b] = (if utf2 a b then 2 else 0)"
| "runeLen s = 0"

function jsonCoerce :: "string \<Rightarrow> string" where
  "jsonCoerce [] = []"
| "jsonCoerce (a # s) =
     (if byte a < 0x80 then a # jsonCoerce s
      else if runeLen (a # s) = 0 then [CHR 0xEF, CHR 0xBF, CHR 0xBD] @ jsonCoerce s
      else a # take (runeLen (a # s) - 1) s @ jsonCoerce (drop (runeLen (a # s) - 1) s))"
  by pat_completeness auto
termination
  by (relation "measure length") auto

subsection \<open>\<^verbatim>\<open>GenerateToken\<close> and \<^verbatim>\<open>ValidateToken\<close>\<close>

text \<open>
  \<open>secretKey\<close> is the package variable of that name and \<open>now\<close> the reading of the clock.
\<close>

definition GenerateToken :: "Lib \<Rightarrow> string \<Rightarrow> string \<Rightarrow> time \<Rightarrow> string + (string \<times> time)" where
  "GenerateToken lib secretKey runID now =
     (let expiresAt = now + 2 * Hour;
          tokenData = \<lparr>TokenRunID = runID, ExpiresAt = expiresAt, TokenCreatedAt = now\<rparr>
      in (case jsonMarshal lib tokenData of
            Inl err \<Rightarrow> Inl (''failed to marshal token data: '' @ err)
          | Inr payload \<Rightarrow>
              (let signature = hmacSHA256 lib secretKey payload;
                   token = b64Encode payload @ ''.'' @ hexEncode signature
               in Inr (token, expiresAt))))"

definition ValidateToken :: "Lib \<Rightarrow> string \<Rightarrow> string \<Rightarrow> string \<Rightarrow> time \<Rightarrow> bool \<times> string option" where
  "ValidateToken lib secretKey token runID now =
     (case Split token CHR ''.'' of
        [payloadEncoded, signatureHex] \<Rightarrow>
          (case b64Decode payloadEncoded of
             None \<Rightarrow> (False, Some ''failed to decode payload'')
           | Some payload \<Rightarrow>
               (case hexDecode signatureHex of
                  None \<Rightarrow> (False, Some ''failed to decode signature'')
                | Some signature \<Rightarrow>
                    if signature \<noteq> hmacSHA256 lib secretKey payload
                    then (False, Some ''invalid signature'')
                    else
                      (case jsonUnmarshal lib payload of
                         Inl err \<Rightarrow> (False, Some (''failed to unmarshal token data: '' @ err))
                       | Inr tokenData \<Rightarrow>
                           if ExpiresAt tokenData < now then (False, Some ''token has expired'')
                           else if TokenRunID tokenData \<noteq> runID
                           then (False, Some ''token run_id mismatch'')
                           else (True, None))))
      | _ \<Rightarrow> (False, Some ''invalid token format''))"

section \<open>The ingest handler (\<^verbatim>\<open>handlers\<close>)\<close>

text \<open>
  Modelled from the spec: \<^verbatim>\<open>StoreProcessInfo\<close> is called by the handler but is not in
  \<^verbatim>\<open>storage.go\<close>. The spec has it merge one entry into the map of process metadata of
  the run, by a read of the document followed by a write of the whole document.
\<close>

definition StoreProcessInfo :: "string \<Rightarrow> ProcessInfo \<Rightarrow> Firestore \<Rightarrow> string option \<times> Firestore" where
  "StoreProcessInfo runID info fs =
     (case docGet runID fs of
        ((snapshot, Some err), fs') \<Rightarrow> (Some err, fs')
      | ((snapshot, None), fs') \<Rightarrow>
          (case snapshot of
             Some (Some runDoc) \<Rightarrow>
               docSet runID
                 (runDoc\<lparr>ProcessInfoMap :=
                    (InfoPID info, info) #
                    filter (\<lambda>e. fst e \<noteq> InfoPID info) (ProcessInfoMap runDoc)\<rparr>) fs'
           | _ \<Rightarrow> (Some (''run '' @ runID @ '' not found''), fs')))"

text \<open>\<^verbatim>\<open>IngestRequest\<close>; its fields \<^verbatim>\<open>RunID\<close> and \<^verbatim>\<open>ProcessInfo\<close> are renamed.\<close>

record IngestRequest =
  ReqRunID :: string
  Data :: string
  ReqProcessInfo :: "ProcessInfo option"

text \<open>
  What the handler reads of a request: the method, the header \<^verbatim>\<open>Authorization\<close> (empty
  when there is none) and the body as the JSON decoder returns it, \<open>None\<close> when it
  fails. Of the response, the status and the text written.
\<close>

record Request =
  Method :: string
  Authorization :: string
  Body :: "IngestRequest option"

record Response =
  Status :: nat
  Text :: string

definition httpError :: "string \<Rightarrow> nat \<Rightarrow> Response" where
  "httpError msg code = \<lparr>Status = code, Text = msg @ [CHR 0x0A]\<rparr>"

fun showNat :: "nat \<Rightarrow> string" where
  "showNat n = (if n < 10 then [char_of (48 + n)] else showNat (n div 10) @ [char_of (48 + n mod 10)])"

declare showNat.simps [simp del]

text \<open>The body of a successful response: a JSON object, keys in order.\<close>

definition successBody :: "nat \<Rightarrow> string" where
  "successBody n =
     ''{'' @ [CHR 0x22] @ ''samples'' @ [CHR 0x22] @ '':'' @ [CHR 0x22] @ showNat n @ [CHR 0x22] @ '','' @
     [CHR 0x22] @ ''status'' @ [CHR 0x22] @ '':'' @ [CHR 0x22] @ ''success'' @ [CHR 0x22] @ ''}'' @ [CHR 0x0A]"

text \<open>
  The handler once the token is accepted. \<open>now\<close> is the clock as the handler reads it,
  \<open>later\<close> as the store reads it afterwards.
\<close>

definition IngestAuthorized :: "IngestRequest \<Rightarrow> time \<Rightarrow> time \<Rightarrow> Firestore \<Rightarrow> Response \<times> Firestore" where
  "IngestAuthorized req now later fs =
     (if ReqRunID req = [] \<or> Data req = [] then (httpError ''Missing run_id or data'' 400, fs)
      else
        (case GetRun (ReqRunID req) fs of
           (r, fs1) \<Rightarrow>
             (case (case r of
                      Inl err \<Rightarrow> if Contains err ''not found'' then Some now else None
                    | Inr runDoc \<Rightarrow> Some (StartTime runDoc)) of
                None \<Rightarrow> (httpError ''Internal server error'' 500, fs1)
              | Some startTime \<Rightarrow>
                  (case ParseData (Data req) startTime of
                     (samples, Some err) \<Rightarrow> (httpError ''Invalid data format'' 400, fs1)
                   | (samples, None) \<Rightarrow>
                       (case StoreSamples (ReqRunID req) samples later fs1 of
                          (Some err, fs2) \<Rightarrow> (httpError ''Internal server error'' 500, fs2)
                        | (None, fs2) \<Rightarrow>
                            (let fs3 = (case ReqProcessInfo req of
                                          None \<Rightarrow> fs2
                                        | Some info \<Rightarrow> snd (StoreProcessInfo (ReqRunID req) info fs2))
                             in (\<lparr>Status = 200, Text = successBody (length samples)\<rparr>, fs3)))))))"

definition Ingest :: "Lib \<Rightarrow> string \<Rightarrow> Request \<Rightarrow> time \<Rightarrow> time \<Rightarrow> Firestore \<Rightarrow> Response \<times> Firestore" where
  "Ingest lib secretKey r now later fs =
     (if Method r = ''OPTIONS'' then (\<lparr>Status = 200, Text = []\<rparr>, fs)
      else if Method r \<noteq> ''POST'' then (httpError ''Method not allowed'' 405, fs)
      else
        (case Body r of
           None \<Rightarrow> (httpError ''Invalid request body'' 400, fs)
         | Some req \<Rightarrow>
             if Authorization r = [] then (httpError ''Authorization header required'' 401, fs)
             else
               (case Split (Authorization r) CHR '' '' of
                  [bearer, token] \<Rightarrow>
                    if bearer \<noteq> ''Bearer''
                    then (httpError ''Invalid authorization header format'' 401, fs)
                    else
                      (case ValidateToken lib secretKey token (ReqRunID req) now of
                         (valid, Some err) \<Rightarrow> (httpError ''Token validation failed'' 401, fs)
                       | (valid, None) \<Rightarrow>
                           if \<not> valid then (httpError ''Invalid token'' 401, fs)
                           else IngestAuthorized req now later fs)
                | _ \<Rightarrow> (httpError ''Invalid authorization header format'' 401, fs))))"

section \<open>Predicates of the properties\<close>

text \<open>No request to the store is scheduled to fail.\<close>

definition noFaults :: "Firestore \<Rightarrow> bool" where
  "noFaults fs = (\<forall>f \<in> set (faults fs). \<not> f)"

section \<open>Properties\<close>

lemmas eval_defs = ParseData_def parseLine_def parseParts_def parseElapsed_def parseMB_def parseGC_def
  TrimSpace_def asciiSpace_def space2_def space3_def byte_def TrimSuffix_def HasSuffix_def
  Atoi_def decDigit_def hexDigit_def ParseFloat_def special_def lowerAZ_def readFloat_def
  f64round_def f64_to_int_def bitLen.simps quot_def wrap64_def underscoreOK_def Let_def

lemma ParseData_spec_line:
  "ParseData ''00:01:30 | 123 | GradleDaemon | 100MB | 200MB | 300MB'' T =
     ([\<lparr>Timestamp = ToMillis (T + 90 * Second), ElapsedTime = 90, PID = ''123'',
        Name = ''GradleDaemon'', HeapUsed = 100, HeapCap = 200, RSS = 300,
        GCTime = 0, RunID = []\<rparr>], None)"
  by (simp add: eval_defs Second_def)


lemma rpc_fst: "noFaults fs \<Longrightarrow> \<not> fst (rpc op fs)"
  by (cases "faults fs") (auto simp: rpc_def noFaults_def)

lemma rpc_state [simp]:
  "docs (snd (rpc op fs)) = docs fs"
  "ops (snd (rpc op fs)) = ops fs @ [op]"
  by (cases "faults fs"; simp add: rpc_def)+

lemma rpc_keeps_noFaults [simp]:
  "noFaults fs \<Longrightarrow> noFaults (snd (rpc op fs))"
  by (cases "faults fs") (auto simp: rpc_def noFaults_def)

lemma docGet_found:
  assumes "noFaults fs" and "map_of (docs fs) k = Some d"
  shows "docGet k fs = ((Some (Some d), None), snd (rpc (OpGet k) fs))"
proof (cases "rpc (OpGet k) fs")
  case (Pair failed fs')
  with rpc_fst [OF assms(1), of "OpGet k"] rpc_state(1) [of "OpGet k" fs] assms(2)
  show ?thesis by (simp add: docGet_def)
qed

lemma docGet_missing:
  assumes "noFaults fs" and "map_of (docs fs) k = None"
  shows "docGet k fs = ((Some None, Some (errNotFound k)), snd (rpc (OpGet k) fs))"
proof (cases "rpc (OpGet k) fs")
  case (Pair failed fs')
  with rpc_fst [OF assms(1), of "OpGet k"] rpc_state(1) [of "OpGet k" fs] assms(2)
  show ?thesis by (simp add: docGet_def)
qed

lemma docSet_ok:
  assumes "noFaults fs"
  shows "docSet k d fs = (None, (snd (rpc (OpSet k) fs))\<lparr>docs := putDoc k d (docs fs)\<rparr>)"
proof (cases "rpc (OpSet k) fs")
  case (Pair failed fs')
  with rpc_fst [OF assms(1), of "OpSet k"] rpc_state(1) [of "OpSet k" fs]
  show ?thesis by (simp add: docSet_def)
qed

lemma map_of_putDoc [simp]:
  "map_of (putDoc k v l) k' = (if k' = k then Some v else map_of l k')"
  by (induction l) auto

lemma noFaults_docs_update [simp]: "noFaults (fs\<lparr>docs := x\<rparr>) = noFaults fs"
  by (simp add: noFaults_def)

lemma Contains_append_right: "Contains b sub \<Longrightarrow> Contains (a @ b) sub"
  by (induction a) auto

lemma errNotFound_contains: "Contains (errNotFound k) ''not found''"
  unfolding errNotFound_def append_assoc[symmetric]
  by (rule Contains_append_right) simp

lemma StoreSamples_existing:
  assumes "noFaults fs" and "map_of (docs fs) k = Some d"
  shows "fst (StoreSamples k samples now fs) = None"
    and "docs (snd (StoreSamples k samples now fs)) =
           putDoc k (d\<lparr>Samples := Samples d @ samples, UpdatedAt := now,
                       UpdatedAtTimestamp := ToMillis now\<rparr>) (docs fs)"
    and "ops (snd (StoreSamples k samples now fs)) = ops fs @ [OpGet k, OpSet k]"
    and "noFaults (snd (StoreSamples k samples now fs))"
  using assms by (simp_all add: StoreSamples_def docGet_found docSet_ok)

lemma StoreSamples_new:
  assumes "noFaults fs" and "map_of (docs fs) k = None"
  shows "fst (StoreSamples k samples now fs) = None"
    and "docs (snd (StoreSamples k samples now fs)) =
           putDoc k (zeroRunDoc\<lparr>ID := k, DocRunID := k, StartTime := now, CreatedAt := now,
                       Samples := samples, UpdatedAt := now,
                       UpdatedAtTimestamp := ToMillis now\<rparr>) (docs fs)"
    and "ops (snd (StoreSamples k samples now fs)) = ops fs @ [OpGet k, OpSet k]"
    and "noFaults (snd (StoreSamples k samples now fs))"
  using assms
  by (simp_all add: StoreSamples_def docGet_missing docSet_ok errNotFound_contains zeroRunDoc_def)

lemma GetRun_existing:
  assumes "noFaults fs" and "map_of (docs fs) k = Some d"
  shows "GetRun k fs = (Inr d, snd (rpc (OpGet k) fs))"
  using assms by (simp add: GetRun_def docGet_found)

lemma GetRun_missing:
  assumes "noFaults fs" and "map_of (docs fs) k = None"
  shows "GetRun k fs = (Inl (errNotFound k), snd (rpc (OpGet k) fs))"
  using assms by (simp add: GetRun_def docGet_missing)

lemma IngestAuthorized_existing:
  assumes "noFaults fs" and "map_of (docs fs) k = Some d" and "k \<noteq> []" and "dat \<noteq> []"
  shows "fst (IngestAuthorized \<lparr>ReqRunID = k, Data = dat, ReqProcessInfo = None\<rparr> now later fs) =
           \<lparr>Status = 200, Text = successBody (length (fst (ParseData dat (StartTime d))))\<rparr>"
    and "map_of (docs (snd (IngestAuthorized \<lparr>ReqRunID = k, Data = dat, ReqProcessInfo = None\<rparr> now later fs))) k =
           Some (d\<lparr>Samples := Samples d @ fst (ParseData dat (StartTime d)), UpdatedAt := later,
                    UpdatedAtTimestamp := ToMillis later\<rparr>)"
proof -
  let ?fs1 = "snd (rpc (OpGet k) fs)"
  let ?smp = "fst (ParseData dat (StartTime d))"
  have g: "GetRun k fs = (Inr d, ?fs1)" by (rule GetRun_existing [OF assms(1,2)])
  have n1: "noFaults ?fs1" using assms(1) by simp
  have m1: "map_of (docs ?fs1) k = Some d" using assms(2) by simp
  obtain e fs2 where s: "StoreSamples k ?smp later ?fs1 = (e, fs2)" by (cases "StoreSamples k ?smp later ?fs1")
  have e: "e = None" using StoreSamples_existing(1) [OF n1 m1, of ?smp later] s by simp
  have d2: "docs fs2 = putDoc k (d\<lparr>Samples := Samples d @ ?smp, UpdatedAt := later,
                       UpdatedAtTimestamp := ToMillis later\<rparr>) (docs ?fs1)"
    using StoreSamples_existing(2) [OF n1 m1, of ?smp later] s by simp
  have r: "IngestAuthorized \<lparr>ReqRunID = k, Data = dat, ReqProcessInfo = None\<rparr> now later fs =
        (\<lparr>Status = 200, Text = successBody (length ?smp)\<rparr>, fs2)"
    using assms(3,4) g s e by (simp add: IngestAuthorized_def ParseData_def)
  show "fst (IngestAuthorized \<lparr>ReqRunID = k, Data = dat, ReqProcessInfo = None\<rparr> now later fs) =
           \<lparr>Status = 200, Text = successBody (length ?smp)\<rparr>"
    using r by simp
  show "map_of (docs (snd (IngestAuthorized \<lparr>ReqRunID = k, Data = dat, ReqProcessInfo = None\<rparr> now later fs))) k =
           Some (d\<lparr>Samples := Samples d @ ?smp, UpdatedAt := later,
                    UpdatedAtTimestamp := ToMillis later\<rparr>)"
    using r d2 by simp
qed

lemma ParseData_batch:
  "fst (ParseData ''00:01:30 | 123 | GradleDaemon | 100MB | 200MB | 300MB\<newline>00:01:30 | 123 | GradleDaemon | 100MB\<newline>00:01:35 | 456 | KotlinDaemon | 50MB | 60MB | 70MB'' T) =
     [\<lparr>Timestamp = ToMillis (T + 90 * Second), ElapsedTime = 90, PID = ''123'',
        Name = ''GradleDaemon'', HeapUsed = 100, HeapCap = 200, RSS = 300,
        GCTime = 0, RunID = []\<rparr>,
      \<lparr>Timestamp = ToMillis (T + 95 * Second), ElapsedTime = 95, PID = ''456'',
        Name = ''KotlinDaemon'', HeapUsed = 50, HeapCap = 60, RSS = 70,
        GCTime = 0, RunID = []\<rparr>]"
  by (simp add: eval_defs Second_def)

lemma four_columns:
  "length (Split (TrimSpace ''00:01:30 | 123 | GradleDaemon | 100MB'') CHR ''|'') = 4"
  by (simp add: eval_defs)

lemma ParseData_gc_seconds:
  "ParseData ''00:01:30 | 123 | GradleDaemon | 100MB | 200MB | 300MB | 0.250s'' T =
     ([\<lparr>Timestamp = ToMillis (T + 90 * Second), ElapsedTime = 90, PID = ''123'',
        Name = ''GradleDaemon'', HeapUsed = 100, HeapCap = 200, RSS = 300,
        GCTime = 0, RunID = []\<rparr>], None)"
  by (simp add: eval_defs Second_def)

lemma ParseData_gc_millis:
  "ParseData ''00:01:30 | 123 | GradleDaemon | 100MB | 200MB | 300MB | 250ms'' T =
     ([\<lparr>Timestamp = ToMillis (T + 90 * Second), ElapsedTime = 90, PID = ''123'',
        Name = ''GradleDaemon'', HeapUsed = 100, HeapCap = 200, RSS = 300,
        GCTime = 250, RunID = []\<rparr>], None)"
  by (simp add: eval_defs Second_def)

lemma ParseData_gc_garbage:
  "ParseData ''00:01:30 | 123 | GradleDaemon | 100MB | 200MB | 300MB | abc'' T =
     ([\<lparr>Timestamp = ToMillis (T + 90 * Second), ElapsedTime = 90, PID = ''123'',
        Name = ''GradleDaemon'', HeapUsed = 100, HeapCap = 200, RSS = 300,
        GCTime = 0, RunID = []\<rparr>], None)"
  by (simp add: eval_defs Second_def)

lemma ParseData_gc_NA:
  "ParseData ''00:01:30 | 123 | GradleDaemon | 100MB | 200MB | 300MB | N/A'' T =
     ([\<lparr>Timestamp = ToMillis (T + 90 * Second), ElapsedTime = 90, PID = ''123'',
        Name = ''GradleDaemon'', HeapUsed = 100, HeapCap = 200, RSS = 300,
        GCTime = 0, RunID = []\<rparr>], None)"
  by (simp add: eval_defs Second_def)

lemma ParseData_heap_NA:
  "ParseData ''00:01:30 | 123 | GradleDaemon | N/A | 200MB | 300MB'' T = ([], None)"
  by (simp add: eval_defs Second_def)

lemma parseMB_NA: "parseMB ''N/A'' = None"
  by (simp add: eval_defs)

lemma parseGC_NA: "parseGC ''N/A'' = 0"
  by (simp add: parseGC_def TrimSuffix_def HasSuffix_def)

lemma parseParts_gc_NA: "parseParts T ps (Some ''N/A'') = parseParts T ps None"
  by (simp add: parseParts_def parseGC_NA split: list.splits option.splits)

lemma parseParts_mem_NA:
  "parseParts T [p0, p1, p2, ''N/A'', p4, p5] gc = None"
  "parseParts T [p0, p1, p2, p3, ''N/A'', p5] gc = None"
  "parseParts T [p0, p1, p2, p3, p4, ''N/A''] gc = None"
  by (simp_all add: parseParts_def parseMB_NA split: option.splits)

lemma parseLines_append: "parseLines T (xs @ ys) = parseLines T xs @ parseLines T ys"
  by (induction xs) (auto split: option.splits)

lemma parseLine_field_count:
  "length (Split (TrimSpace l) CHR ''|'') \<noteq> 6 \<Longrightarrow> length (Split (TrimSpace l) CHR ''|'') \<noteq> 7 \<Longrightarrow>
   parseLine T l = None"
  by (simp add: parseLine_def Let_def)

lemma parseLines_RunID: "s \<in> set (parseLines T ls) \<Longrightarrow> RunID s = []"
  by (induction ls) (auto simp: parseLine_def parseParts_def Let_def split: option.splits list.splits if_splits)

lemma MarkRunAsFinished_finished:
  assumes "noFaults fs" and "map_of (docs fs) k = Some d" and "Finished d"
  shows "MarkRunAsFinished k now fs = (None, snd (rpc (OpGet k) fs))"
  using assms by (simp add: MarkRunAsFinished_def docGet_found)

lemma MarkRunAsFinished_unfinished:
  assumes "noFaults fs" and "map_of (docs fs) k = Some d" and "\<not> Finished d"
  shows "MarkRunAsFinished k now fs =
           (None, (snd (rpc (OpSet k) (snd (rpc (OpGet k) fs))))
                    \<lparr>docs := putDoc k (d\<lparr>Finished := True, FinishedAt := now, UpdatedAt := now,
                                        UpdatedAtTimestamp := ToMillis now\<rparr>) (docs fs)\<rparr>)"
  using assms by (simp add: MarkRunAsFinished_def docGet_found docSet_ok)

lemma Since_gt:
  assumes "- (2 ^ 63) \<le> timeout" and "timeout < 2 ^ 63 - 1"
  shows "timeout < Since now t \<longleftrightarrow> timeout < now - t"
  using assms by (auto simp: Since_def)

lemma staleLoop_filter:
  assumes "- (2 ^ 63) \<le> timeout" and "timeout < 2 ^ 63 - 1"
  shows "staleLoop timeout now ds =
           map fst (filter (\<lambda>e. \<not> Finished (snd e) \<and> timeout < now - UpdatedAt (snd e)) ds)"
  by (induction ds) (auto simp: Since_gt [OF assms])

lemma FindStaleRuns_ok:
  assumes "noFaults fs"
  shows "fst (FindStaleRuns timeout now fs) = (staleLoop timeout now (docs fs), None)"
proof (cases "rpc OpDocuments fs")
  case (Pair failed fs')
  with rpc_fst [OF assms, of OpDocuments] rpc_state(1) [of OpDocuments fs]
  show ?thesis by (simp add: FindStaleRuns_def)
qed



lemma IngestAuthorized_new:
  assumes "noFaults fs" and "map_of (docs fs) k = None" and "k \<noteq> []" and "dat \<noteq> []"
  shows "fst (IngestAuthorized \<lparr>ReqRunID = k, Data = dat, ReqProcessInfo = None\<rparr> now later fs) =
           \<lparr>Status = 200, Text = successBody (length (fst (ParseData dat now)))\<rparr>"
proof -
  let ?fs1 = "snd (rpc (OpGet k) fs)"
  let ?smp = "fst (ParseData dat now)"
  have g: "GetRun k fs = (Inl (errNotFound k), ?fs1)" by (rule GetRun_missing [OF assms(1,2)])
  have n1: "noFaults ?fs1" using assms(1) by simp
  have m1: "map_of (docs ?fs1) k = None" using assms(2) by simp
  obtain e fs2 where s: "StoreSamples k ?smp later ?fs1 = (e, fs2)" by (cases "StoreSamples k ?smp later ?fs1")
  have e: "e = None" using StoreSamples_new(1) [OF n1 m1, of ?smp later] s by simp
  show ?thesis
    using assms(3,4) g s e by (simp add: IngestAuthorized_def ParseData_def errNotFound_contains)
qed

lemma IngestAuthorized_status:
  assumes "noFaults fs" and "k \<noteq> []" and "dat \<noteq> []"
  shows "\<exists>T. fst (IngestAuthorized \<lparr>ReqRunID = k, Data = dat, ReqProcessInfo = None\<rparr> now later fs) =
           \<lparr>Status = 200, Text = successBody (length (fst (ParseData dat T)))\<rparr>"
proof (cases "map_of (docs fs) k")
  case None
  from IngestAuthorized_new [OF assms(1) None assms(2,3)] show ?thesis by blast
next
  case (Some d)
  from IngestAuthorized_existing(1) [OF assms(1) Some assms(2,3)] show ?thesis by blast
qed

text \<open>
  C7. \<^verbatim>\<open>ParseData\<close> returns no error on any payload. A line of the payload whose
  number of fields between \<open>|\<close> is neither 6 nor 7 adds nothing: the samples are those of
  the lines before it followed by those of the lines after it. A batch of three lines
  whose second has four columns gives exactly two samples, and the handler answers it
  with status 200 and the count 2.
\<close>

theorem malformed_line_tolerance:
  "snd (ParseData data T) = None \<and>
   (Split (TrimSpace data) (CHR 0x0A) = pre @ l # post \<and>
    length (Split (TrimSpace l) CHR ''|'') \<noteq> 6 \<and> length (Split (TrimSpace l) CHR ''|'') \<noteq> 7 \<longrightarrow>
      fst (ParseData data T) = parseLines T pre @ parseLines T post) \<and>
   length (fst (ParseData ''00:01:30 | 123 | GradleDaemon | 100MB | 200MB | 300MB\<newline>00:01:30 | 123 | GradleDaemon | 100MB\<newline>00:01:35 | 456 | KotlinDaemon | 50MB | 60MB | 70MB'' T)) = 2 \<and>
   (noFaults fs \<and> k \<noteq> [] \<longrightarrow>
      fst (IngestAuthorized
            \<lparr>ReqRunID = k,
             Data = ''00:01:30 | 123 | GradleDaemon | 100MB | 200MB | 300MB\<newline>00:01:30 | 123 | GradleDaemon | 100MB\<newline>00:01:35 | 456 | KotlinDaemon | 50MB | 60MB | 70MB'',
             ReqProcessInfo = None\<rparr> now later fs) =
        \<lparr>Status = 200, Text = successBody 2\<rparr>)"
proof (intro conjI impI)
  show "snd (ParseData data T) = None" by (simp add: ParseData_def)
next
  assume a: "Split (TrimSpace data) (CHR 0x0A) = pre @ l # post \<and>
    length (Split (TrimSpace l) CHR ''|'') \<noteq> 6 \<and> length (Split (TrimSpace l) CHR ''|'') \<noteq> 7"
  then have "parseLine T l = None" by (simp add: parseLine_field_count)
  with a show "fst (ParseData data T) = parseLines T pre @ parseLines T post"
    by (simp add: ParseData_def parseLines_append)
next
  show "length (fst (ParseData ''00:01:30 | 123 | GradleDaemon | 100MB | 200MB | 300MB\<newline>00:01:30 | 123 | GradleDaemon | 100MB\<newline>00:01:35 | 456 | KotlinDaemon | 50MB | 60MB | 70MB'' T)) = 2"
    by (simp add: ParseData_batch)
next
  assume a: "noFaults fs \<and> k \<noteq> []"
  let ?dat = "''00:01:30 | 123 | GradleDaemon | 100MB | 200MB | 300MB\<newline>00:01:30 | 123 | GradleDaemon | 100MB\<newline>00:01:35 | 456 | KotlinDaemon | 50MB | 60MB | 70MB''"
  have "?dat \<noteq> []" by simp
  with a IngestAuthorized_status [of fs k ?dat now later]
  obtain T' where "fst (IngestAuthorized \<lparr>ReqRunID = k, Data = ?dat, ReqProcessInfo = None\<rparr> now later fs) =
           \<lparr>Status = 200, Text = successBody (length (fst (ParseData ?dat T')))\<rparr>"
    by blast
  then show "fst (IngestAuthorized \<lparr>ReqRunID = k, Data = ?dat, ReqProcessInfo = None\<rparr> now later fs) =
        \<lparr>Status = 200, Text = successBody 2\<rparr>"
    by (simp add: ParseData_batch numeral_2_eq_2)
qed

lemma split_batch_lines:
  "Split (TrimSpace ''a | b | c | d | e | f\<newline>x | y | z | w'') (CHR 0x0A) =
     [''a | b | c | d | e | f''] @ ''x | y | z | w'' # []"
  by (simp add: TrimSpace_def asciiSpace_def space2_def space3_def byte_def)

theorem malformed_line_tolerance_witness:
  "Split (TrimSpace ''a | b | c | d | e | f\<newline>x | y | z | w'') (CHR 0x0A) =
     [''a | b | c | d | e | f''] @ ''x | y | z | w'' # [] \<and>
   length (Split (TrimSpace ''x | y | z | w'') CHR ''|'') \<noteq> 6 \<and>
   length (Split (TrimSpace ''x | y | z | w'') CHR ''|'') \<noteq> 7 \<and>
   fst (ParseData ''a | b | c | d | e | f\<newline>x | y | z | w'' 0) =
     parseLines 0 [''a | b | c | d | e | f''] @ parseLines 0 [] \<and>
   noFaults \<lparr>docs = [], faults = [False], ops = []\<rparr> \<and> ''run1'' \<noteq> [] \<and>
   fst (IngestAuthorized
         \<lparr>ReqRunID = ''run1'',
          Data = ''00:01:30 | 123 | GradleDaemon | 100MB | 200MB | 300MB\<newline>00:01:30 | 123 | GradleDaemon | 100MB\<newline>00:01:35 | 456 | KotlinDaemon | 50MB | 60MB | 70MB'',
          ReqProcessInfo = None\<rparr> 5 6 \<lparr>docs = [], faults = [False], ops = []\<rparr>) =
     \<lparr>Status = 200, Text = successBody 2\<rparr>"
proof -
  have h1: "Split (TrimSpace ''a | b | c | d | e | f\<newline>x | y | z | w'') (CHR 0x0A) =
     [''a | b | c | d | e | f''] @ ''x | y | z | w'' # [] \<and>
   length (Split (TrimSpace ''x | y | z | w'') CHR ''|'') \<noteq> 6 \<and>
   length (Split (TrimSpace ''x | y | z | w'') CHR ''|'') \<noteq> 7"
    by (simp add: TrimSpace_def asciiSpace_def space2_def space3_def byte_def)
  have h2: "noFaults \<lparr>docs = [], faults = [False], ops = []\<rparr> \<and> ''run1'' \<noteq> []"
    by (simp add: noFaults_def)
  from malformed_line_tolerance [of "''a | b | c | d | e | f\<newline>x | y | z | w''" 0
      "[''a | b | c | d | e | f'']" "''x | y | z | w''" "[]"
      "\<lparr>docs = [], faults = [False], ops = []\<rparr>" "''run1''" 5 6] h1 h2
  show ?thesis by blast
qed

text \<open>
  C3. No sample that \<^verbatim>\<open>ParseData\<close> returns carries a run id: the field is left empty on
  every payload. \<^verbatim>\<open>StoreSamples\<close> appends the samples as they are, so the document of the
  run \<open>run1\<close> holds a sample whose run id is empty and not \<open>run1\<close>.
\<close>

theorem ingested_samples_lack_run_id:
  "RunID ` set (fst (ParseData data T)) \<subseteq> {[]} \<and>
   map_of (docs (snd (StoreSamples ''run1''
       (fst (ParseData ''00:01:30 | 123 | GradleDaemon | 100MB | 200MB | 300MB'' T)) later
       \<lparr>docs = [], faults = [], ops = []\<rparr>))) ''run1'' =
     Some \<lparr>ID = ''run1'', DocRunID = ''run1'', StartTime = later, EndTime = zeroTime,
           CreatedAt = later, UpdatedAt = later, UpdatedAtTimestamp = ToMillis later,
           Samples = [\<lparr>Timestamp = ToMillis (T + 90 * Second), ElapsedTime = 90, PID = ''123'',
                       Name = ''GradleDaemon'', HeapUsed = 100, HeapCap = 200, RSS = 300,
                       GCTime = 0, RunID = []\<rparr>],
           ProcessInfoMap = [], Finished = False, FinishedAt = zeroTime\<rparr>"
proof
  show "RunID ` set (fst (ParseData data T)) \<subseteq> {[]}"
    using parseLines_RunID by (auto simp: ParseData_def)
next
  have n: "noFaults \<lparr>docs = [], faults = [], ops = []\<rparr>" by (simp add: noFaults_def)
  have m: "map_of (docs \<lparr>docs = [], faults = [], ops = []\<rparr>) ''run1'' = None" by simp
  from StoreSamples_new(2) [OF n m] show "map_of (docs (snd (StoreSamples ''run1''
       (fst (ParseData ''00:01:30 | 123 | GradleDaemon | 100MB | 200MB | 300MB'' T)) later
       \<lparr>docs = [], faults = [], ops = []\<rparr>))) ''run1'' =
     Some \<lparr>ID = ''run1'', DocRunID = ''run1'', StartTime = later, EndTime = zeroTime,
           CreatedAt = later, UpdatedAt = later, UpdatedAtTimestamp = ToMillis later,
           Samples = [\<lparr>Timestamp = ToMillis (T + 90 * Second), ElapsedTime = 90, PID = ''123'',
                       Name = ''GradleDaemon'', HeapUsed = 100, HeapCap = 200, RSS = 300,
                       GCTime = 0, RunID = []\<rparr>],
           ProcessInfoMap = [], Finished = False, FinishedAt = zeroTime\<rparr>"
    by (simp add: ParseData_spec_line zeroRunDoc_def)
qed

text \<open>
  C4. With the seventh column \<open>0.250s\<close> the line is accepted and the GC time of its
  sample is 0, the value it has without the column and with a column that is not a number:
  only the suffix \<open>ms\<close> is removed before the number is read, and the value is an \<open>int\<close>.
  With \<open>250ms\<close> it is 250.
\<close>

theorem gc_time_in_seconds_reads_as_zero:
  "ParseData ''00:01:30 | 123 | GradleDaemon | 100MB | 200MB | 300MB | 0.250s'' T =
     ([\<lparr>Timestamp = ToMillis (T + 90 * Second), ElapsedTime = 90, PID = ''123'',
        Name = ''GradleDaemon'', HeapUsed = 100, HeapCap = 200, RSS = 300,
        GCTime = 0, RunID = []\<rparr>], None) \<and>
   ParseData ''00:01:30 | 123 | GradleDaemon | 100MB | 200MB | 300MB | 0.250s'' T =
     ParseData ''00:01:30 | 123 | GradleDaemon | 100MB | 200MB | 300MB'' T \<and>
   ParseData ''00:01:30 | 123 | GradleDaemon | 100MB | 200MB | 300MB | abc'' T =
     ParseData ''00:01:30 | 123 | GradleDaemon | 100MB | 200MB | 300MB'' T \<and>
   map GCTime (fst (ParseData ''00:01:30 | 123 | GradleDaemon | 100MB | 200MB | 300MB | 250ms'' T)) = [250]"
  by (simp add: ParseData_gc_seconds ParseData_spec_line ParseData_gc_garbage ParseData_gc_millis)

text \<open>
  C5, as stated, fails: a line whose heap-used column is \<open>N/A\<close> is skipped.
\<close>

theorem na_placeholder_counterexample:
  "fst (ParseData ''00:01:30 | 123 | GradleDaemon | N/A | 200MB | 300MB'' 0) = []"
  by (simp add: ParseData_heap_NA)

text \<open>
  C5, amended. \<open>N/A\<close> in the GC column is a value that is not there: the line gives the
  sample it gives without the column, with GC time 0. \<open>N/A\<close> in the heap-used,
  heap-capacity or RSS column makes the line one that does not parse: it is skipped, and
  the payload still returns no error.
\<close>

theorem na_placeholder_amended:
  "parseParts T ps (Some ''N/A'') = parseParts T ps None \<and>
   ParseData ''00:01:30 | 123 | GradleDaemon | 100MB | 200MB | 300MB | N/A'' T =
     ParseData ''00:01:30 | 123 | GradleDaemon | 100MB | 200MB | 300MB'' T \<and>
   parseParts T [p0, p1, p2, ''N/A'', p4, p5] gc = None \<and>
   parseParts T [p0, p1, p2, p3, ''N/A'', p5] gc = None \<and>
   parseParts T [p0, p1, p2, p3, p4, ''N/A''] gc = None \<and>
   snd (ParseData data T) = None"
  by (simp add: parseParts_gc_NA parseParts_mem_NA ParseData_gc_NA ParseData_spec_line)
    (simp add: ParseData_def)

lemma staleLoop_mem:
  "k \<in> set (staleLoop timeout now ds) \<Longrightarrow>
   \<exists>d. (k, d) \<in> set ds \<and> \<not> Finished d \<and> timeout < Since now (UpdatedAt d)"
proof (induction ds)
  case Nil
  then show ?case by simp
next
  case (Cons e ds)
  obtain a b where e: "e = (a, b)" by (cases e)
  from Cons e show ?case by (simp split: if_splits) blast+
qed

lemma distinct_fst_unique:
  "distinct (map fst ds) \<Longrightarrow> (k, d) \<in> set ds \<Longrightarrow> (k, d') \<in> set ds \<Longrightarrow> d = d'"
  by (induction ds) (auto simp: rev_image_eqI)

text \<open>
  C8. While the store answers: on a run that is already finished, \<^verbatim>\<open>MarkRunAsFinished\<close>
  returns no error, leaves every document as it is and only reads; on a run that is not,
  it returns no error and writes the document with \<open>finished\<close> set, \<open>finishedAt\<close> and
  \<open>updatedAt\<close> at the clock and the milliseconds of \<open>updatedAt\<close> recomputed. A second call after
  the first returns no error, changes no document, and the run is finished.
\<close>

theorem finish_idempotence:
  "(noFaults fs \<and> map_of (docs fs) k = Some d \<and> Finished d \<longrightarrow>
      fst (MarkRunAsFinished k now fs) = None \<and>
      docs (snd (MarkRunAsFinished k now fs)) = docs fs \<and>
      ops (snd (MarkRunAsFinished k now fs)) = ops fs @ [OpGet k]) \<and>
   (noFaults fs \<and> map_of (docs fs) k = Some d \<and> \<not> Finished d \<longrightarrow>
      fst (MarkRunAsFinished k now fs) = None \<and>
      docs (snd (MarkRunAsFinished k now fs)) =
        putDoc k (d\<lparr>Finished := True, FinishedAt := now, UpdatedAt := now,
                    UpdatedAtTimestamp := ToMillis now\<rparr>) (docs fs)) \<and>
   (noFaults fs \<and> map_of (docs fs) k = Some d \<longrightarrow>
      fst (MarkRunAsFinished k now' (snd (MarkRunAsFinished k now fs))) = None \<and>
      docs (snd (MarkRunAsFinished k now' (snd (MarkRunAsFinished k now fs)))) =
        docs (snd (MarkRunAsFinished k now fs)) \<and>
      (\<exists>d'. map_of (docs (snd (MarkRunAsFinished k now' (snd (MarkRunAsFinished k now fs))))) k = Some d' \<and>
            Finished d'))"
proof (intro conjI impI)
  assume a: "noFaults fs \<and> map_of (docs fs) k = Some d \<and> Finished d"
  then have r: "MarkRunAsFinished k now fs = (None, snd (rpc (OpGet k) fs))"
    by (simp add: MarkRunAsFinished_finished)
  show "fst (MarkRunAsFinished k now fs) = None" using r by simp
  show "docs (snd (MarkRunAsFinished k now fs)) = docs fs" using r by simp
  show "ops (snd (MarkRunAsFinished k now fs)) = ops fs @ [OpGet k]" using r by simp
next
  assume a: "noFaults fs \<and> map_of (docs fs) k = Some d \<and> \<not> Finished d"
  then have r: "MarkRunAsFinished k now fs =
           (None, (snd (rpc (OpSet k) (snd (rpc (OpGet k) fs))))
                    \<lparr>docs := putDoc k (d\<lparr>Finished := True, FinishedAt := now, UpdatedAt := now,
                                        UpdatedAtTimestamp := ToMillis now\<rparr>) (docs fs)\<rparr>)"
    by (simp add: MarkRunAsFinished_unfinished)
  show "fst (MarkRunAsFinished k now fs) = None" using r by simp
  show "docs (snd (MarkRunAsFinished k now fs)) =
        putDoc k (d\<lparr>Finished := True, FinishedAt := now, UpdatedAt := now,
                    UpdatedAtTimestamp := ToMillis now\<rparr>) (docs fs)" using r by simp
next
  assume a: "noFaults fs \<and> map_of (docs fs) k = Some d"
  let ?fs1 = "snd (MarkRunAsFinished k now fs)"
  have "noFaults ?fs1 \<and> (\<exists>d1. map_of (docs ?fs1) k = Some d1 \<and> Finished d1)"
  proof (cases "Finished d")
    case True
    with a have "MarkRunAsFinished k now fs = (None, snd (rpc (OpGet k) fs))"
      by (simp add: MarkRunAsFinished_finished)
    with a True show ?thesis by simp
  next
    case False
    with a have "MarkRunAsFinished k now fs =
           (None, (snd (rpc (OpSet k) (snd (rpc (OpGet k) fs))))
                    \<lparr>docs := putDoc k (d\<lparr>Finished := True, FinishedAt := now, UpdatedAt := now,
                                        UpdatedAtTimestamp := ToMillis now\<rparr>) (docs fs)\<rparr>)"
      by (simp add: MarkRunAsFinished_unfinished)
    with a show ?thesis by simp
  qed
  then obtain d1 where n1: "noFaults ?fs1" and m1: "map_of (docs ?fs1) k = Some d1" and f1: "Finished d1"
    by blast
  have r2: "MarkRunAsFinished k now' ?fs1 = (None, snd (rpc (OpGet k) ?fs1))"
    by (rule MarkRunAsFinished_finished [OF n1 m1 f1])
  show "fst (MarkRunAsFinished k now' ?fs1) = None" using r2 by simp
  show "docs (snd (MarkRunAsFinished k now' ?fs1)) = docs ?fs1" using r2 by simp
  show "\<exists>d'. map_of (docs (snd (MarkRunAsFinished k now' ?fs1))) k = Some d' \<and> Finished d'"
    using r2 m1 f1 by simp
qed

theorem finish_idempotence_witness:
  "noFaults \<lparr>docs = [(''run1'', zeroRunDoc\<lparr>Finished := True\<rparr>), (''run2'', zeroRunDoc)], faults = [], ops = []\<rparr> \<and>
   map_of [(''run1'', zeroRunDoc\<lparr>Finished := True\<rparr>), (''run2'', zeroRunDoc)] ''run1'' = Some (zeroRunDoc\<lparr>Finished := True\<rparr>) \<and>
   Finished (zeroRunDoc\<lparr>Finished := True\<rparr>) \<and>
   map_of [(''run1'', zeroRunDoc\<lparr>Finished := True\<rparr>), (''run2'', zeroRunDoc)] ''run2'' = Some zeroRunDoc \<and>
   \<not> Finished zeroRunDoc \<and>
   MarkRunAsFinished ''run1'' 7
     \<lparr>docs = [(''run1'', zeroRunDoc\<lparr>Finished := True\<rparr>), (''run2'', zeroRunDoc)], faults = [], ops = []\<rparr> =
     (None, \<lparr>docs = [(''run1'', zeroRunDoc\<lparr>Finished := True\<rparr>), (''run2'', zeroRunDoc)], faults = [],
             ops = [OpGet ''run1'']\<rparr>) \<and>
   docs (snd (MarkRunAsFinished ''run2'' 7000000
     \<lparr>docs = [(''run1'', zeroRunDoc\<lparr>Finished := True\<rparr>), (''run2'', zeroRunDoc)], faults = [], ops = []\<rparr>)) =
     [(''run1'', zeroRunDoc\<lparr>Finished := True\<rparr>),
      (''run2'', zeroRunDoc\<lparr>Finished := True, FinishedAt := 7000000, UpdatedAt := 7000000,
                            UpdatedAtTimestamp := 7\<rparr>)] \<and>
   fst (MarkRunAsFinished ''run2'' 9000000 (snd (MarkRunAsFinished ''run2'' 7000000
     \<lparr>docs = [(''run1'', zeroRunDoc\<lparr>Finished := True\<rparr>), (''run2'', zeroRunDoc)], faults = [], ops = []\<rparr>))) = None"
proof -
  let ?fs = "\<lparr>docs = [(''run1'', zeroRunDoc\<lparr>Finished := True\<rparr>), (''run2'', zeroRunDoc)], faults = [], ops = []\<rparr>"
  have h: "noFaults ?fs" by (simp add: noFaults_def)
  have m1: "map_of (docs ?fs) ''run1'' = Some (zeroRunDoc\<lparr>Finished := True\<rparr>)" by simp
  have m2: "map_of (docs ?fs) ''run2'' = Some zeroRunDoc" by simp
  have f1: "Finished (zeroRunDoc\<lparr>Finished := True\<rparr>)" by simp
  have f2: "\<not> Finished zeroRunDoc" by (simp add: zeroRunDoc_def)
  have t: "ToMillis 7000000 = 7" by (simp add: ToMillis_def wrap64_def quot_def)
  have e1: "MarkRunAsFinished ''run1'' 7 ?fs = (None, ?fs\<lparr>ops := [OpGet ''run1'']\<rparr>)"
    by (simp add: MarkRunAsFinished_def docGet_def rpc_def)
  from finish_idempotence [of ?fs "''run1''" "zeroRunDoc\<lparr>Finished := True\<rparr>" 7 7]
       finish_idempotence [of ?fs "''run2''" zeroRunDoc 7000000 9000000]
       h m1 m2 f1 f2 t e1
  show ?thesis by simp
qed

lemma Since_recent: "Since now (now - 4 * Minute) = 4 * Minute"
  by (simp add: Since_def Minute_def Second_def)

text \<open>
  C9. While the store answers, and for a timeout that is a duration below the largest,
  \<^verbatim>\<open>FindStaleRuns\<close> returns no error and exactly the ids, in the order of the collection, of
  the documents that are not finished and whose \<open>updatedAt\<close> lies more than the timeout
  before the clock. A run updated six minutes ago and not finished is among the runs stale
  after five minutes, one updated four minutes ago is not, and a finished run never is.
\<close>

theorem stale_detection:
  "(noFaults fs \<and> - (2 ^ 63) \<le> timeout \<and> timeout < 2 ^ 63 - 1 \<longrightarrow>
      fst (FindStaleRuns timeout now fs) =
        (map fst (filter (\<lambda>e. \<not> Finished (snd e) \<and> timeout < now - UpdatedAt (snd e)) (docs fs)),
         None)) \<and>
   (noFaults fs \<and> (k, d) \<in> set (docs fs) \<and> \<not> Finished d \<and> UpdatedAt d = now - 6 * Minute \<longrightarrow>
      k \<in> set (fst (fst (FindStaleRuns (5 * Minute) now fs)))) \<and>
   (noFaults fs \<and> distinct (map fst (docs fs)) \<and> (k, d) \<in> set (docs fs) \<and>
    UpdatedAt d = now - 4 * Minute \<longrightarrow>
      k \<notin> set (fst (fst (FindStaleRuns (5 * Minute) now fs)))) \<and>
   (noFaults fs \<and> distinct (map fst (docs fs)) \<and> (k, d) \<in> set (docs fs) \<and> Finished d \<longrightarrow>
      k \<notin> set (fst (fst (FindStaleRuns timeout now fs))))"
proof (intro conjI impI)
  assume a: "noFaults fs \<and> - (2 ^ 63) \<le> timeout \<and> timeout < 2 ^ 63 - 1"
  then show "fst (FindStaleRuns timeout now fs) =
        (map fst (filter (\<lambda>e. \<not> Finished (snd e) \<and> timeout < now - UpdatedAt (snd e)) (docs fs)),
         None)"
    by (simp add: FindStaleRuns_ok staleLoop_filter)
next
  assume a: "noFaults fs \<and> (k, d) \<in> set (docs fs) \<and> \<not> Finished d \<and> UpdatedAt d = now - 6 * Minute"
  have b: "- (2 ^ 63) \<le> 5 * Minute" "5 * Minute < 2 ^ 63 - 1"
    by (simp_all add: Minute_def Second_def)
  have "5 * Minute < now - UpdatedAt d" using a by (simp add: Minute_def Second_def)
  with a have "(k, d) \<in> set (filter (\<lambda>e. \<not> Finished (snd e) \<and> 5 * Minute < now - UpdatedAt (snd e)) (docs fs))"
    by simp
  then have "fst (k, d) \<in> fst ` set (filter (\<lambda>e. \<not> Finished (snd e) \<and> 5 * Minute < now - UpdatedAt (snd e)) (docs fs))"
    by (rule imageI)
  then have "k \<in> set (staleLoop (5 * Minute) now (docs fs))"
    by (simp add: staleLoop_filter [OF b])
  with a show "k \<in> set (fst (fst (FindStaleRuns (5 * Minute) now fs)))"
    by (simp add: FindStaleRuns_ok)
next
  assume a: "noFaults fs \<and> distinct (map fst (docs fs)) \<and> (k, d) \<in> set (docs fs) \<and>
    UpdatedAt d = now - 4 * Minute"
  show "k \<notin> set (fst (fst (FindStaleRuns (5 * Minute) now fs)))"
  proof
    assume "k \<in> set (fst (fst (FindStaleRuns (5 * Minute) now fs)))"
    with a have "k \<in> set (staleLoop (5 * Minute) now (docs fs))" by (simp add: FindStaleRuns_ok)
    then obtain d' where d': "(k, d') \<in> set (docs fs)" "5 * Minute < Since now (UpdatedAt d')"
      using staleLoop_mem by blast
    have "d' = d"
      by (rule distinct_fst_unique [of "docs fs" k d' d]) (use a d' in simp_all)
    with d'(2) have "5 * Minute < Since now (UpdatedAt d)" by simp
    with a have "5 * Minute < Since now (now - 4 * Minute)" by simp
    then have "5 * Minute < 4 * Minute" by (simp only: Since_recent)
    then show False by (simp add: Minute_def Second_def)
  qed
next
  assume a: "noFaults fs \<and> distinct (map fst (docs fs)) \<and> (k, d) \<in> set (docs fs) \<and> Finished d"
  show "k \<notin> set (fst (fst (FindStaleRuns timeout now fs)))"
  proof
    assume "k \<in> set (fst (fst (FindStaleRuns timeout now fs)))"
    with a have "k \<in> set (staleLoop timeout now (docs fs))" by (simp add: FindStaleRuns_ok)
    then obtain d' where d': "(k, d') \<in> set (docs fs)" "\<not> Finished d'"
      using staleLoop_mem by blast
    have "d' = d"
      by (rule distinct_fst_unique [of "docs fs" k d' d]) (use a d' in simp_all)
    with d' a show False by simp
  qed
qed

theorem stale_detection_witness:
  "noFaults \<lparr>docs = [(''old'', zeroRunDoc\<lparr>UpdatedAt := 1000 * Minute - 6 * Minute\<rparr>),
                     (''fresh'', zeroRunDoc\<lparr>UpdatedAt := 1000 * Minute - 4 * Minute\<rparr>),
                     (''done'', zeroRunDoc\<lparr>UpdatedAt := 0, Finished := True\<rparr>)],
             faults = [], ops = []\<rparr> \<and>
   - (2 ^ 63) \<le> 5 * Minute \<and> 5 * Minute < 2 ^ 63 - 1 \<and>
   fst (FindStaleRuns (5 * Minute) (1000 * Minute)
         \<lparr>docs = [(''old'', zeroRunDoc\<lparr>UpdatedAt := 1000 * Minute - 6 * Minute\<rparr>),
                  (''fresh'', zeroRunDoc\<lparr>UpdatedAt := 1000 * Minute - 4 * Minute\<rparr>),
                  (''done'', zeroRunDoc\<lparr>UpdatedAt := 0, Finished := True\<rparr>)],
          faults = [], ops = []\<rparr>) = ([''old''], None)"
proof -
  let ?fs = "\<lparr>docs = [(''old'', zeroRunDoc\<lparr>UpdatedAt := 1000 * Minute - 6 * Minute\<rparr>),
                     (''fresh'', zeroRunDoc\<lparr>UpdatedAt := 1000 * Minute - 4 * Minute\<rparr>),
                     (''done'', zeroRunDoc\<lparr>UpdatedAt := 0, Finished := True\<rparr>)],
             faults = [], ops = []\<rparr>"
  have h: "noFaults ?fs \<and> - (2 ^ 63) \<le> 5 * Minute \<and> 5 * Minute < 2 ^ 63 - 1"
    by (simp add: noFaults_def Minute_def Second_def)
  from stale_detection [of ?fs "5 * Minute" "1000 * Minute"] h
  have "fst (FindStaleRuns (5 * Minute) (1000 * Minute) ?fs) =
        (map fst (filter (\<lambda>e. \<not> Finished (snd e) \<and> 5 * Minute < 1000 * Minute - UpdatedAt (snd e)) (docs ?fs)),
         None)"
    by blast
  moreover have "map fst (filter (\<lambda>e. \<not> Finished (snd e) \<and> 5 * Minute < 1000 * Minute - UpdatedAt (snd e)) (docs ?fs)) = [''old'']"
    by (simp add: zeroRunDoc_def Minute_def Second_def)
  ultimately show ?thesis using h by simp
qed

end
